theory Spec2Isabelle
  imports Main "HOL-Library.Sublist"
begin

section \<open>Python values shared by the notebooks\<close>

text \<open>
  The exceptions the modelled cells can raise. A cell that raises returns \<open>Inl\<close> of
  one of these; a cell that finishes returns \<open>Inr\<close> of its value.
\<close>

datatype exn =
    SystemExit string
  | IndexError
  | KeyError string
  | ValueError
  | AttributeError string

text \<open>
  An f-string formats the result of \<open>dict.get\<close> with \<open>str\<close>: a missing key gives
  \<open>None\<close>, which is printed as the text \<open>None\<close>.
\<close>

fun fmt :: "string option \<Rightarrow> string" where
  "fmt None = ''None''"
| "fmt (Some s) = s"

section \<open>Waiting for a feature group (Iceberg notebook)\<close>

text \<open>
  \<^verbatim>\<open>
  def wait_for_feature_group_creation_complete(feature_group):
      status = feature_group.describe().get('FeatureGroupStatus')
      print(f'Initial status: {status}')
      while status == 'Creating':
          logger.info(f'Waiting for feature group: {feature_group.name} to be created ...')
          time.sleep(5)
          status = feature_group.describe().get('FeatureGroupStatus')
      if status != 'Created':
          raise SystemExit(f'Failed to create feature group {feature_group.name}: {status}')
      logger.info(f'FeatureGroup {feature_group.name} was successfully created.')
  \<close>
  The service is a parameter: \<open>describe k\<close> is the value of
  \<open>describe().get('FeatureGroupStatus')\<close> at the \<open>k\<close>-th call (counted from 0), \<open>None\<close>
  when the key is absent. Everything the function does to the outside world is
  recorded, in order, as a list of events.
\<close>

datatype event =
    Describe
  | Print string
  | LogInfo string
  | Sleep nat

definition waiting_msg :: "string \<Rightarrow> string" where
  "waiting_msg name = ''Waiting for feature group: '' @ name @ '' to be created ...''"

definition failed_msg :: "string \<Rightarrow> string option \<Rightarrow> string" where
  "failed_msg name status = ''Failed to create feature group '' @ name @ '': '' @ fmt status"

definition created_msg :: "string \<Rightarrow> string" where
  "created_msg name = ''FeatureGroup '' @ name @ '' was successfully created.''"

text \<open>One pass through the body of the \<open>while\<close> loop, after its test has succeeded.\<close>

definition poll_events :: "string \<Rightarrow> event list" where
  "poll_events name = [LogInfo (waiting_msg name), Sleep 5, Describe]"

text \<open>
  The \<open>while\<close> loop. Its state is the last status read, the number of \<open>describe\<close>
  calls made so far and the events so far. The loop has no bound, so it is a partial
  function: \<open>None\<close> is the run that never leaves the loop.
\<close>

partial_function (option) poll_loop ::
  "(nat \<Rightarrow> string option) \<Rightarrow> string \<Rightarrow> string option \<Rightarrow> nat \<Rightarrow> event list
     \<Rightarrow> (string option \<times> nat \<times> event list) option"
where
  "poll_loop describe name status k tr =
     (if status = Some ''Creating''
      then poll_loop describe name (describe k) (Suc k) (tr @ poll_events name)
      else Some (status, k, tr))"

declare poll_loop.simps [code]

definition wait_for_feature_group_creation_complete ::
  "(nat \<Rightarrow> string option) \<Rightarrow> string \<Rightarrow> ((exn + unit) \<times> event list) option"
where
  "wait_for_feature_group_creation_complete describe name =
     (let status = describe 0;
          tr = [Describe, Print (''Initial status: '' @ fmt status)]
      in case poll_loop describe name status (Suc 0) tr of
           None \<Rightarrow> None
         | Some (status', k, tr') \<Rightarrow>
             if status' \<noteq> Some ''Created''
             then Some (Inl (SystemExit (failed_msg name status')), tr')
             else Some (Inr (), tr' @ [LogInfo (created_msg name)]))"

section \<open>Listing the features to read (batch-scoring notebook)\<close>

text \<open>
  \<^verbatim>\<open>
  def generate_fsets(fg_list, exclude_fsets=None):
      _fg_lst = []
      for _fg in fg_list:
          _fg_tmp = pd.DataFrame(
              Utils.describe_feature_group(_fg["FeatureGroupName"])["FeatureDefinitions"]
          )
          if exclude_fsets:
              _fg_tmp = _fg_tmp[~_fg_tmp.FeatureName.isin(exclude_fsets)]
          _fg_lst.append(_fg_tmp)
      return pd.concat(_fg_lst, ignore_index=True)
  \<close>
  A feature definition is the dictionary \<open>{FeatureName, FeatureType}\<close> of a
  \<open>DescribeFeatureGroup\<close> response. The helper \<open>Utils.describe_feature_group\<close> belongs to
  the workshop's \<open>utilities\<close> package, outside the notebooks modelled here, so it is a
  parameter of the model: a function from a group name to a description.
\<close>

record feature_definition =
  FeatureName :: string
  FeatureType :: string

record feature_group_description =
  FeatureGroupName :: string
  FeatureDefinitions :: "feature_definition list"

text \<open>
  The frame built from a list of definitions: one row per definition. Its columns are
  the keys of the dictionaries, so a frame built from no dictionary has no column.
\<close>

record fd_frame =
  fd_columns :: "string list"
  fd_rows :: "feature_definition list"

definition fd_DataFrame :: "feature_definition list \<Rightarrow> fd_frame" where
  "fd_DataFrame defs =
     \<lparr>fd_columns = (if defs = [] then [] else [''FeatureName'', ''FeatureType'']),
      fd_rows = defs\<rparr>"

text \<open>Python truth value of \<open>exclude_fsets\<close>: \<open>None\<close> and the empty list are false.\<close>

fun truthy :: "string list option \<Rightarrow> bool" where
  "truthy None = False"
| "truthy (Some xs) = (xs \<noteq> [])"

fun isin :: "string \<Rightarrow> string list option \<Rightarrow> bool" where
  "isin x None = False"
| "isin x (Some xs) = (x \<in> set xs)"

text \<open>
  The body of \<open>if exclude_fsets:\<close>. The attribute access \<open>_fg_tmp.FeatureName\<close> raises
  \<open>AttributeError\<close> on a frame that has no such column; the boolean mask keeps the rows
  whose name is not in the list, in their order.
\<close>

definition exclude_rows :: "string list option \<Rightarrow> fd_frame \<Rightarrow> exn + fd_frame" where
  "exclude_rows exclude_fsets fg_tmp =
     (if truthy exclude_fsets
      then (if ''FeatureName'' \<in> set (fd_columns fg_tmp)
            then Inr (fg_tmp\<lparr>fd_rows :=
                   filter (\<lambda>d. \<not> isin (FeatureName d) exclude_fsets) (fd_rows fg_tmp)\<rparr>)
            else Inl (AttributeError ''FeatureName''))
      else Inr fg_tmp)"

fun generate_fsets_loop ::
  "(string \<Rightarrow> feature_group_description) \<Rightarrow> string list option
     \<Rightarrow> feature_group_description list \<Rightarrow> fd_frame list \<Rightarrow> exn + fd_frame list"
where
  "generate_fsets_loop describe_feature_group exclude_fsets [] fg_lst = Inr fg_lst"
| "generate_fsets_loop describe_feature_group exclude_fsets (fg # fg_list) fg_lst =
     (case exclude_rows exclude_fsets
             (fd_DataFrame (FeatureDefinitions (describe_feature_group (FeatureGroupName fg)))) of
        Inl e \<Rightarrow> Inl e
      | Inr fg_tmp \<Rightarrow>
          generate_fsets_loop describe_feature_group exclude_fsets fg_list (fg_lst @ [fg_tmp]))"

text \<open>
  \<open>pd.concat(objs, ignore_index=True)\<close> raises \<open>ValueError\<close> (no objects to concatenate)
  on the empty list; otherwise the rows follow one another in the order of the frames
  and the columns are those of the frames in order of first appearance.
\<close>

fun union_columns :: "string list \<Rightarrow> string list \<Rightarrow> string list" where
  "union_columns seen [] = seen"
| "union_columns seen (c # cs) =
     (if c \<in> set seen then union_columns seen cs else union_columns (seen @ [c]) cs)"

definition fd_concat :: "fd_frame list \<Rightarrow> exn + fd_frame" where
  "fd_concat objs =
     (if objs = [] then Inl ValueError
      else Inr \<lparr>fd_columns = union_columns [] (concat (map fd_columns objs)),
                fd_rows = concat (map fd_rows objs)\<rparr>)"

definition generate_fsets ::
  "(string \<Rightarrow> feature_group_description) \<Rightarrow> feature_group_description list
     \<Rightarrow> string list option \<Rightarrow> exn + fd_frame"
where
  "generate_fsets describe_feature_group fg_list exclude_fsets =
     (case generate_fsets_loop describe_feature_group exclude_fsets fg_list [] of
        Inl e \<Rightarrow> Inl e
      | Inr fg_lst \<Rightarrow> fd_concat fg_lst)"

text \<open>The unfiltered concatenation the result is compared with.\<close>

definition all_definitions ::
  "(string \<Rightarrow> feature_group_description) \<Rightarrow> feature_group_description list
     \<Rightarrow> feature_definition list"
where
  "all_definitions describe_feature_group fg_list =
     concat (map (\<lambda>fg. FeatureDefinitions (describe_feature_group (FeatureGroupName fg))) fg_list)"

text \<open>A small feature store used to run the function on concrete inputs.\<close>

definition sample_describe :: "string \<Rightarrow> feature_group_description" where
  "sample_describe name =
     \<lparr>FeatureGroupName = name,
      FeatureDefinitions =
        (if name = ''orders''
         then [\<lparr>FeatureName = ''order_id'', FeatureType = ''String''\<rparr>,
               \<lparr>FeatureName = ''is_reordered'', FeatureType = ''Integral''\<rparr>]
         else if name = ''customers''
         then [\<lparr>FeatureName = ''customer_id'', FeatureType = ''String''\<rparr>,
               \<lparr>FeatureName = ''age_18-29'', FeatureType = ''Integral''\<rparr>]
         else [])\<rparr>"

definition sample_group :: "string \<Rightarrow> feature_group_description" where
  "sample_group name = \<lparr>FeatureGroupName = name, FeatureDefinitions = []\<rparr>"

section \<open>Version gates at the top of the notebooks\<close>

text \<open>
  Python compares two \<open>str\<close> values character by character, by code point; a proper
  prefix is smaller.
\<close>

fun str_lt :: "string \<Rightarrow> string \<Rightarrow> bool" where
  "str_lt [] [] = False"
| "str_lt [] (y # ys) = True"
| "str_lt (x # xs) [] = False"
| "str_lt (x # xs) (y # ys) =
     ((of_char x :: nat) < of_char y \<or> (x = y \<and> str_lt xs ys))"

text \<open>What a gate does when it fires: \<open>pip install\<close> of a pinned package, then a reload.\<close>

datatype action =
    PipInstall string
  | Reload string

text \<open>
  \<^verbatim>\<open>
  if sagemaker.__version__ < '2.48.1':
      subprocess.check_call([sys.executable, '-m', 'pip', 'install', 'sagemaker==2.48.1'])
      importlib.reload(sagemaker)
  \<close>
\<close>

definition sagemaker_version_gate :: "string \<Rightarrow> action list" where
  "sagemaker_version_gate version =
     (if str_lt version ''2.48.1''
      then [PipInstall ''sagemaker==2.48.1'', Reload ''sagemaker'']
      else [])"

text \<open>\<open>s.split(sep)\<close> for a one-character separator: always at least one piece.\<close>

fun split :: "char \<Rightarrow> string \<Rightarrow> string list" where
  "split sep [] = [[]]"
| "split sep (c # cs) =
     (if c = sep then [] # split sep cs
      else (case split sep cs of
              [] \<Rightarrow> [[c]]
            | p # ps \<Rightarrow> (c # p) # ps))"

text \<open>
  \<open>int(s)\<close> on a \<open>str\<close>, a character being a code point below 256: surrounding white
  space is dropped, one sign may come first, then decimal digits, where a single
  underscore may stand between two digits. Anything else raises \<open>ValueError\<close>. The
  white space that \<open>int\<close> drops is tab, line feed, vertical tab, form feed, carriage
  return and space, and, beyond ASCII, next line (0x85) and no-break space (0xA0); the
  separators 0x1C to 0x1F, which \<open>str.strip\<close> would drop, are not among them.
\<close>

definition is_digit :: "char \<Rightarrow> bool" where
  "is_digit c = (48 \<le> (of_char c :: nat) \<and> (of_char c :: nat) \<le> 57)"

definition digit_value :: "char \<Rightarrow> nat" where
  "digit_value c = of_char c - 48"

definition is_space :: "char \<Rightarrow> bool" where
  "is_space c = ((of_char c :: nat) \<in> {9, 10, 11, 12, 13, 32, 133, 160})"

definition strip :: "string \<Rightarrow> string" where
  "strip s = rev (dropWhile is_space (rev (dropWhile is_space s)))"

fun digits :: "nat \<Rightarrow> bool \<Rightarrow> string \<Rightarrow> nat option" where
  "digits acc prev [] = (if prev then Some acc else None)"
| "digits acc prev (c # cs) =
     (if is_digit c then digits (10 * acc + digit_value c) True cs
      else if c = CHR ''_'' \<and> prev \<and> cs \<noteq> [] \<and> is_digit (hd cs) then digits acc False cs
      else None)"

definition py_int :: "string \<Rightarrow> exn + int" where
  "py_int s =
     (case strip s of
        [] \<Rightarrow> Inl ValueError
      | c # cs \<Rightarrow>
          if c = CHR ''-'' then (case digits 0 False cs of
                                   None \<Rightarrow> Inl ValueError
                                 | Some n \<Rightarrow> Inr (- int n))
          else if c = CHR ''+'' then (case digits 0 False cs of
                                   None \<Rightarrow> Inl ValueError
                                 | Some n \<Rightarrow> Inr (int n))
          else (case digits 0 False (c # cs) of
                  None \<Rightarrow> Inl ValueError
                | Some n \<Rightarrow> Inr (int n)))"

text \<open>
  \<^verbatim>\<open>
  sm_version = sagemaker.__version__
  major, minor, patch = sm_version.split('.')
  if int(major) < 2 or int(minor) < 125:
      subprocess.check_call([sys.executable, '-m', 'pip', 'install', 'sagemaker==2.125.0'])
      importlib.reload(sagemaker)
  \<close>
  The unpacking raises \<open>ValueError\<close> unless there are exactly three pieces; \<open>or\<close>
  evaluates \<open>int(minor)\<close> only when the first test is false.
\<close>

definition iceberg_version_gate :: "string \<Rightarrow> exn + action list" where
  "iceberg_version_gate sm_version =
     (case split (CHR ''.'') sm_version of
        [major, minor, patch] \<Rightarrow>
          (case py_int major of
             Inl e \<Rightarrow> Inl e
           | Inr ma \<Rightarrow>
               if ma < 2
               then Inr [PipInstall ''sagemaker==2.125.0'', Reload ''sagemaker'']
               else (case py_int minor of
                       Inl e \<Rightarrow> Inl e
                     | Inr mi \<Rightarrow>
                         if mi < 125
                         then Inr [PipInstall ''sagemaker==2.125.0'', Reload ''sagemaker'']
                         else Inr []))
      | _ \<Rightarrow> Inl ValueError)"

text \<open>
  The numeric reading of a version, against which the gates are judged: the
  dot-separated components as numbers, compared as Python compares tuples.
\<close>

fun those_ints :: "(exn + int) list \<Rightarrow> int list option" where
  "those_ints [] = Some []"
| "those_ints (Inl e # rs) = None"
| "those_ints (Inr n # rs) = map_option (Cons n) (those_ints rs)"

definition version_tuple :: "string \<Rightarrow> int list option" where
  "version_tuple v = those_ints (map py_int (split (CHR ''.'') v))"

fun tuple_lt :: "int list \<Rightarrow> int list \<Rightarrow> bool" where
  "tuple_lt [] [] = False"
| "tuple_lt [] (y # ys) = True"
| "tuple_lt (x # xs) [] = False"
| "tuple_lt (x # xs) (y # ys) = (x < y \<or> (x = y \<and> tuple_lt xs ys))"

definition numerically_newer :: "string \<Rightarrow> string \<Rightarrow> bool" where
  "numerically_newer v w =
     (case (version_tuple v, version_tuple w) of
        (Some a, Some b) \<Rightarrow> tuple_lt b a
      | _ \<Rightarrow> False)"

section \<open>The Athena query of the batch-scoring notebook\<close>














section \<open>Data frames\<close>

text \<open>
  A pandas \<open>DataFrame\<close>, column by column: the number of rows and, in order, each
  column's label with its values. Labels need not be distinct.
\<close>

record 'c frame =
  nrows :: nat
  cols :: "(string \<times> 'c list) list"

definition columns :: "'c frame \<Rightarrow> string list" where
  "columns df = map fst (cols df)"

text \<open>\<open>xs[i]\<close> for an index that is not negative.\<close>

definition index :: "'a list \<Rightarrow> nat \<Rightarrow> exn + 'a" where
  "index xs i = (if i < length xs then Inr (xs ! i) else Inl IndexError)"

text \<open>
  \<open>df.columns = df.columns.map(f)\<close>: \<open>f\<close> is applied to the labels from left to right
  and the first exception ends the statement.
\<close>

fun map_labels ::
  "(string \<Rightarrow> exn + string) \<Rightarrow> (string \<times> 'c list) list \<Rightarrow> exn + (string \<times> 'c list) list"
where
  "map_labels f [] = Inr []"
| "map_labels f ((c, vs) # rest) =
     (case f c of
        Inl e \<Rightarrow> Inl e
      | Inr c' \<Rightarrow>
          (case map_labels f rest of
             Inl e \<Rightarrow> Inl e
           | Inr rest' \<Rightarrow> Inr ((c', vs) # rest')))"

text \<open>
  \<open>df.drop(label, axis=1)\<close>: every column with that label goes; a label that no column
  has raises \<open>KeyError\<close>.
\<close>

definition drop_axis1 :: "string \<Rightarrow> 'c frame \<Rightarrow> exn + 'c frame" where
  "drop_axis1 label df =
     (if label \<in> set (columns df)
      then Inr (df\<lparr>cols := filter (\<lambda>(c, vs). c \<noteq> label) (cols df)\<rparr>)
      else Inl (KeyError label))"

section \<open>Searching feature metadata (feature-level metadata notebook)\<close>

text \<open>
  \<^verbatim>\<open>
  def search_features_using_string(search_string):
      response = sagemaker_client.search(
          Resource= "FeatureMetadata",
          SearchExpression={
              'Filters': [
                  {'Name': 'FeatureName', 'Operator': 'Contains', 'Value': search_string},
                  {'Name': 'Description', 'Operator': 'Contains', 'Value': search_string},
                  {'Name': 'AllParameters', 'Operator': 'Contains', 'Value': search_string}
              ],
              "Operator": "Or"
          },
      )
      df=pd.json_normalize(response['Results'], max_level=1)
      df.columns = df.columns.map(lambda col: col.split(".")[1])
      df=df.drop('FeatureGroupArn', axis=1)
      return df
  \<close>
\<close>

record search_filter =
  filter_Name :: string
  filter_Operator :: string
  filter_Value :: string

record search_expression =
  Filters :: "search_filter list"
  Operator :: string

record search_request =
  Resource :: string
  SearchExpression :: search_expression

text \<open>The keyword arguments of the call to \<open>sagemaker_client.search\<close>.\<close>

definition search_arguments :: "string \<Rightarrow> search_request" where
  "search_arguments search_string =
     \<lparr>Resource = ''FeatureMetadata'',
      SearchExpression =
        \<lparr>Filters =
           [\<lparr>filter_Name = ''FeatureName'', filter_Operator = ''Contains'',
             filter_Value = search_string\<rparr>,
            \<lparr>filter_Name = ''Description'', filter_Operator = ''Contains'',
             filter_Value = search_string\<rparr>,
            \<lparr>filter_Name = ''AllParameters'', filter_Operator = ''Contains'',
             filter_Value = search_string\<rparr>],
         Operator = ''Or''\<rparr>\<rparr>"

text \<open>
  The service and pandas are parameters: \<open>search\<close> maps the request to the list
  \<open>response['Results']\<close>, and \<open>json_normalize\<close> maps that list and \<open>max_level\<close> to a frame.
\<close>

definition search_features_using_string ::
  "(search_request \<Rightarrow> 'r list) \<Rightarrow> ('r list \<Rightarrow> nat \<Rightarrow> 'c frame) \<Rightarrow> string \<Rightarrow> exn + 'c frame"
where
  "search_features_using_string search json_normalize search_string =
     (let results = search (search_arguments search_string);
          df = json_normalize results 1
      in case map_labels (\<lambda>col. index (split (CHR ''.'') col) 1) (cols df) of
           Inl e \<Rightarrow> Inl e
         | Inr renamed \<Rightarrow> drop_axis1 ''FeatureGroupArn'' (df\<lparr>cols := renamed\<rparr>))"

text \<open>
  What the search expression asks for. A resource is seen through its searchable
  properties, a map from property name to text. A \<open>Contains\<close> filter holds when the
  property's text has the value as a substring; under \<open>Or\<close> one filter that holds is
  enough, under \<open>And\<close> all must hold. This is the service's reading of the request,
  as the comment above the function gives it (\<^verbatim>\<open># Search functions that returns features
  where either feature name, description or parameters (key/value pairs) match the
  search criteria\<close>), not code of the notebooks.
\<close>

fun starts_with :: "string \<Rightarrow> string \<Rightarrow> bool" where
  "starts_with [] text = True"
| "starts_with (p # ps) [] = False"
| "starts_with (p # ps) (t # ts) = (p = t \<and> starts_with ps ts)"




text \<open>The part of a dotted column label that the rename keeps.\<close>

definition label_after_dot :: "string \<Rightarrow> string" where
  "label_after_dot col = split (CHR ''.'') col ! 1"

text \<open>
  A stand-in for pandas on results that are dictionaries with text values and at most
  one value that is itself a dictionary of texts. A dictionary is an association list
  with distinct keys, in insertion order. One level of flattening leaves the top-level
  texts where they are, takes the inner dictionary out and stores each of its entries
  under \<open>outer.inner\<close>, as an assignment to a dictionary does: a key that is there keeps
  its place and takes the new value, a new key goes to the end. The frame has the
  columns in order of first appearance and \<open>None\<close> for a missing value. It is used to
  run the function on concrete results.
\<close>

record nested_result =
  scalars :: "(string \<times> string) list"
  nested :: "(string \<times> (string \<times> string) list) option"

fun dict_set :: "string \<Rightarrow> 'v \<Rightarrow> (string \<times> 'v) list \<Rightarrow> (string \<times> 'v) list" where
  "dict_set k v [] = [(k, v)]"
| "dict_set k v ((k', v') # d) =
     (if k' = k then (k, v) # d else (k', v') # dict_set k v d)"

text \<open>\<open>v = new_d.pop(k); new_d[prefix + "." + k] = v\<close>, for a key of the dictionary.\<close>

definition move_under :: "string \<Rightarrow> string \<Rightarrow> (string \<times> 'v) list \<Rightarrow> (string \<times> 'v) list" where
  "move_under outer k new_d =
     (case map_of new_d k of
        None \<Rightarrow> new_d
      | Some v \<Rightarrow> dict_set (outer @ ''.'' @ k) v (filter (\<lambda>(k', v'). k' \<noteq> k) new_d))"

definition flatten_inner :: "string \<Rightarrow> (string \<times> string) list \<Rightarrow> (string \<times> string) list" where
  "flatten_inner outer inner = foldl (\<lambda>new_d k. move_under outer k new_d) inner (map fst inner)"

definition flatten_result :: "nested_result \<Rightarrow> (string \<times> string) list" where
  "flatten_result r =
     (case nested r of
        None \<Rightarrow> scalars r
      | Some (outer, inner) \<Rightarrow>
          foldl (\<lambda>new_d (k, v). dict_set k v new_d) (scalars r) (flatten_inner outer inner))"

definition normalize_nested :: "nested_result list \<Rightarrow> nat \<Rightarrow> string option frame" where
  "normalize_nested results max_level =
     \<lparr>nrows = length results,
      cols = map (\<lambda>c. (c, map (\<lambda>r. map_of (flatten_result r) c) results))
               (union_columns [] (concat (map (\<lambda>r. map fst (flatten_result r)) results)))\<rparr>"


definition undotted_results :: "nested_result list" where
  "undotted_results =
     [\<lparr>scalars = [(''Score'', ''1'')],
       nested = Some (''FeatureMetadata'', [(''FeatureGroupArn'', ''arn:fg/customers'')])\<rparr>]"

definition arnless_results :: "nested_result list" where
  "arnless_results =
     [\<lparr>scalars = [], nested = Some (''FeatureMetadata'', [(''FeatureName'', ''age'')])\<rparr>]"

definition search_returning :: "'r list \<Rightarrow> search_request \<Rightarrow> 'r list" where
  "search_returning results request = results"

section \<open>Re-ingesting the customers after the schema update (update notebook)\<close>

text \<open>
  \<^verbatim>\<open>
  sagemaker_runtime.update_feature_group(
      FeatureGroupName=customers_feature_group_name,
      FeatureAdditions=[{"FeatureName": "has_kids", "FeatureType": "Integral"}])
  ...
  customers_df = pd.read_csv('../data/transformed/customers.csv')
  customers_df['has_kids']=np.random.randint(0, 2, customers_df.shape[0])
  customers_df=customers_df.drop(['event_time'],axis=1)
  event_timestamps = [generate_event_timestamp() for _ in range(len(customers_df))]
  customers_df['event_time'] = event_timestamps
  \<close>
  A cell of the frame is an integer, a text or some other value of the file.
\<close>

datatype 'a cell =
    IntCell int
  | StrCell string
  | OtherCell 'a

text \<open>
  \<open>df[label] = values\<close>: the values must be as many as the rows; a label the frame has
  keeps its place and takes the new values, a new label is appended as the last column.
\<close>

definition setitem :: "string \<Rightarrow> 'c list \<Rightarrow> 'c frame \<Rightarrow> exn + 'c frame" where
  "setitem label values df =
     (if length values \<noteq> nrows df then Inl ValueError
      else if label \<in> set (columns df)
      then Inr (df\<lparr>cols := map (\<lambda>(c, vs). if c = label then (c, values) else (c, vs)) (cols df)\<rparr>)
      else Inr (df\<lparr>cols := cols df @ [(label, values)]\<rparr>))"

text \<open>
  \<open>df.drop(labels, axis=1)\<close> with a list of labels: \<open>KeyError\<close> if one of them is not a
  column, otherwise every column with one of the labels goes.
\<close>

definition drop_labels :: "string list \<Rightarrow> 'c frame \<Rightarrow> exn + 'c frame" where
  "drop_labels labels df =
     (case filter (\<lambda>l. l \<notin> set (columns df)) labels of
        [] \<Rightarrow> Inr (df\<lparr>cols := filter (\<lambda>(c, vs). c \<notin> set labels) (cols df)\<rparr>)
      | l # ls \<Rightarrow> Inl (KeyError l))"

text \<open>
  \<open>np.random.randint(low, high, size)\<close>: \<open>size\<close> integers, each at least \<open>low\<close> and below
  \<open>high\<close>. The generator is a parameter, the sequence \<open>raw\<close> of its draws; the \<open>i\<close>-th
  value is the \<open>i\<close>-th draw brought into the range.
\<close>

definition randint :: "(nat \<Rightarrow> nat) \<Rightarrow> int \<Rightarrow> int \<Rightarrow> nat \<Rightarrow> exn + int list" where
  "randint raw low high n =
     (if high \<le> low then Inl ValueError
      else Inr (map (\<lambda>i. low + int (raw i mod nat (high - low))) [0..<n]))"

text \<open>
  \<^verbatim>\<open>
  def generate_event_timestamp():
      naive_dt = datetime.now()
      aware_dt = naive_dt.astimezone()
      utc_dt = aware_dt.astimezone(timezone.utc)
      event_time = utc_dt.isoformat(timespec='milliseconds')
      event_time = event_time.replace('+00:00', 'Z')
      return event_time
  \<close>
  The clock is a parameter: the function is given \<open>utc_dt\<close>, the time of the call as
  fields in UTC.
\<close>

record datetime =
  year :: nat
  month :: nat
  day :: nat
  hour :: nat
  minute :: nat
  second :: nat
  microsecond :: nat

definition digit_char :: "nat \<Rightarrow> char" where
  "digit_char d = ''0123456789'' ! (d mod 10)"

fun decimal :: "nat \<Rightarrow> string" where
  "decimal n = (if n < 10 then [digit_char n] else decimal (n div 10) @ [digit_char (n mod 10)])"

declare decimal.simps [simp del]

definition zfill :: "nat \<Rightarrow> string \<Rightarrow> string" where
  "zfill width s = replicate (width - length s) (CHR ''0'') @ s"

text \<open>\<open>isoformat(timespec='milliseconds')\<close> of a time whose offset from UTC is zero.\<close>

definition isoformat_milliseconds :: "datetime \<Rightarrow> string" where
  "isoformat_milliseconds dt =
     zfill 4 (decimal (year dt)) @ ''-'' @ zfill 2 (decimal (month dt)) @ ''-''
     @ zfill 2 (decimal (day dt)) @ ''T'' @ zfill 2 (decimal (hour dt)) @ '':''
     @ zfill 2 (decimal (minute dt)) @ '':'' @ zfill 2 (decimal (second dt)) @ ''.''
     @ zfill 3 (decimal (microsecond dt div 1000)) @ ''+00:00''"

text \<open>
  \<open>s.replace(old, new)\<close> for a non-empty \<open>old\<close>: the occurrences are found from the left and
  do not overlap. The first argument counts the characters of a match still to skip.
\<close>

fun replace_from :: "nat \<Rightarrow> string \<Rightarrow> string \<Rightarrow> string \<Rightarrow> string" where
  "replace_from skip old new [] = []"
| "replace_from (Suc skip) old new (c # cs) = replace_from skip old new cs"
| "replace_from 0 old new (c # cs) =
     (if starts_with old (c # cs) then new @ replace_from (length old - 1) old new cs
      else c # replace_from 0 old new cs)"

definition replace :: "string \<Rightarrow> string \<Rightarrow> string \<Rightarrow> string" where
  "replace old new s = replace_from 0 old new s"

definition generate_event_timestamp :: "datetime \<Rightarrow> string" where
  "generate_event_timestamp utc_dt = replace ''+00:00'' ''Z'' (isoformat_milliseconds utc_dt)"

text \<open>
  The four statements on the frame. \<open>raw\<close> is the random generator and \<open>now k\<close> the
  clock at the \<open>k\<close>-th call of \<open>generate_event_timestamp\<close>.
\<close>

definition prepare_customers_df ::
  "(nat \<Rightarrow> nat) \<Rightarrow> (nat \<Rightarrow> datetime) \<Rightarrow> 'a cell frame \<Rightarrow> exn + 'a cell frame"
where
  "prepare_customers_df raw now customers_df =
     (case randint raw 0 2 (nrows customers_df) of
        Inl e \<Rightarrow> Inl e
      | Inr has_kids \<Rightarrow>
          (case setitem ''has_kids'' (map IntCell has_kids) customers_df of
             Inl e \<Rightarrow> Inl e
           | Inr df1 \<Rightarrow>
               (case drop_labels [''event_time''] df1 of
                  Inl e \<Rightarrow> Inl e
                | Inr df2 \<Rightarrow>
                    setitem ''event_time''
                      (map (\<lambda>k. StrCell (generate_event_timestamp (now k))) [0..<nrows df2])
                      df2)))"

text \<open>A two-row customers file, a generator and a clock to run the statements on.\<close>

definition sample_customers :: "unit cell frame" where
  "sample_customers =
     \<lparr>nrows = 2,
      cols = [(''customer_id'', [StrCell ''C1'', StrCell ''C2'']),
              (''event_time'', [StrCell ''2020-10-30T03:43:21.000Z'',
                                StrCell ''2020-10-30T03:43:21.000Z'']),
              (''is_married'', [IntCell 1, IntCell 0])]\<rparr>"

definition sample_raw :: "nat \<Rightarrow> nat" where
  "sample_raw i = 7 + 3 * i"

definition sample_now :: "nat \<Rightarrow> datetime" where
  "sample_now k =
     \<lparr>year = 2023, month = 1, day = 5, hour = 14, minute = 3, second = 9,
      microsecond = 41500 + 1000 * k\<rparr>"

section \<open>Starting the batch transform job (batch-scoring notebook)\<close>

text \<open>
  \<^verbatim>\<open>
  xgb_transformer = xgb_model.transformer(instance_count=1, instance_type="ml.m5.xlarge")
  xgb_transformer.assemble_with = "Line"
  xgb_transformer.accept = "text/csv"
  xgb_transformer.transform(
      destination_s3_path,
      content_type="text/csv",
      split_type="Line",
      input_filter="$[2:]",
      join_source="Input",
  )
  \<close>
  The keyword parameters of \<open>transform\<close> that the cell leaves out keep the value \<open>None\<close>.
\<close>

record transform_arguments =
  data :: string
  content_type :: "string option"
  split_type :: "string option"
  input_filter :: "string option"
  output_filter :: "string option"
  join_source :: "string option"

definition xgb_transform_arguments :: "string \<Rightarrow> transform_arguments" where
  "xgb_transform_arguments destination_s3_path =
     \<lparr>data = destination_s3_path,
      content_type = Some ''text/csv'',
      split_type = Some ''Line'',
      input_filter = Some ''$[2:]'',
      output_filter = None,
      join_source = Some ''Input''\<rparr>"

text \<open>
  What the job does with one input line, as the notebook explains the three
  attributes: the input filter selects the columns given to the model, the join source
  \<open>Input\<close> puts the input line before the inference result, and the output filter
  selects the columns that are saved. A filter that is left out is \<open>$\<close>, the whole
  record. Of the path expressions only \<open>$\<close> and \<open>$[n:]\<close>, the columns from the \<open>n\<close>-th on
  (counted from 0), are modelled; this is the service's behaviour, not code of the
  notebooks.
\<close>

datatype selection =
    Whole
  | From nat

definition decimal_value :: "string \<Rightarrow> nat" where
  "decimal_value ds = foldl (\<lambda>acc c. 10 * acc + digit_value c) 0 ds"

definition path_selection :: "string \<Rightarrow> selection option" where
  "path_selection path =
     (if path = ''$'' then Some Whole
      else case path of
        a # b # rest \<Rightarrow>
          if a = CHR ''$'' \<and> b = CHR ''['' \<and> takeWhile is_digit rest \<noteq> []
             \<and> dropWhile is_digit rest = '':]''
          then Some (From (decimal_value (takeWhile is_digit rest)))
          else None
      | _ \<Rightarrow> None)"

definition effective_filter :: "string option \<Rightarrow> string" where
  "effective_filter f = (case f of None \<Rightarrow> ''$'' | Some path \<Rightarrow> path)"

fun select_columns :: "selection \<Rightarrow> 'a list \<Rightarrow> 'a list" where
  "select_columns Whole record = record"
| "select_columns (From n) record = drop n record"

definition model_input :: "transform_arguments \<Rightarrow> string list \<Rightarrow> string list option" where
  "model_input args line =
     map_option (\<lambda>sel. select_columns sel line)
       (path_selection (effective_filter (input_filter args)))"

definition output_row ::
  "transform_arguments \<Rightarrow> (string list \<Rightarrow> string list) \<Rightarrow> string list \<Rightarrow> string list option"
where
  "output_row args model line =
     (case model_input args line of
        None \<Rightarrow> None
      | Some features \<Rightarrow>
          map_option
            (\<lambda>sel. select_columns sel
               (if join_source args = Some ''Input'' then line @ model features
                else model features))
            (path_selection (effective_filter (output_filter args))))"

text \<open>A model that answers every line with one fixed score, to run a line through.\<close>

definition sample_model :: "string list \<Rightarrow> string list" where
  "sample_model features = [''0.75'']"

section \<open>Creating the orders feature group (Iceberg notebook)\<close>

text \<open>
  \<^verbatim>\<open>
  prefix = 'sagemaker-feature-store'
  s3_bucket_name = sagemaker_session.default_bucket()
  ...
  from sagemaker.feature_store.inputs import TableFormatEnum

  record_identifier_order_feature_name = "order_id"

  orders_feature_group_iceberg.create(
      s3_uri=f"s3://{s3_bucket_name}/{prefix}",
      record_identifier_name=record_identifier_order_feature_name,
      event_time_feature_name="event_time",
      role_arn=role,
      enable_online_store=True,
      table_format=TableFormatEnum.ICEBERG
  )
  \<close>
  The default bucket of the session and the execution role are parameters; the
  notebook's variable \<open>prefix\<close> is \<open>prefix_str\<close> here.
\<close>

datatype TableFormatEnum =
    GLUE
  | ICEBERG

record create_arguments =
  s3_uri :: string
  record_identifier_name :: string
  event_time_feature_name :: string
  role_arn :: string
  enable_online_store :: bool
  table_format :: "TableFormatEnum option"

definition prefix_str :: string where
  "prefix_str = ''sagemaker-feature-store''"

definition record_identifier_order_feature_name :: string where
  "record_identifier_order_feature_name = ''order_id''"

definition orders_create_arguments :: "string \<Rightarrow> string \<Rightarrow> create_arguments" where
  "orders_create_arguments s3_bucket_name role =
     \<lparr>s3_uri = ''s3://'' @ s3_bucket_name @ ''/'' @ prefix_str,
      record_identifier_name = record_identifier_order_feature_name,
      event_time_feature_name = ''event_time'',
      role_arn = role,
      enable_online_store = True,
      table_format = Some ICEBERG\<rparr>"

text \<open>
  The stores of the request that the SDK's \<open>FeatureGroup.create\<close> sends for these
  arguments: an online store configuration when \<open>enable_online_store\<close> is true, and an
  offline store configuration, which carries the S3 location and the table format,
  when \<open>s3_uri\<close> is a non-empty string. The SDK is not code of the notebooks; this is
  its mapping of the arguments the cell passes.
\<close>

record online_store_config =
  EnableOnlineStore :: bool

record offline_store_config =
  S3Uri :: string
  TableFormat :: "TableFormatEnum option"

record create_feature_group_request =
  RecordIdentifierFeatureName :: string
  EventTimeFeatureName :: string
  RoleArn :: string
  OnlineStoreConfig :: "online_store_config option"
  OfflineStoreConfig :: "offline_store_config option"

definition create_request :: "create_arguments \<Rightarrow> create_feature_group_request" where
  "create_request args =
     \<lparr>RecordIdentifierFeatureName = record_identifier_name args,
      EventTimeFeatureName = event_time_feature_name args,
      RoleArn = role_arn args,
      OnlineStoreConfig =
        (if enable_online_store args
         then Some \<lparr>EnableOnlineStore = enable_online_store args\<rparr> else None),
      OfflineStoreConfig =
        (if s3_uri args \<noteq> []
         then Some \<lparr>S3Uri = s3_uri args, TableFormat = table_format args\<rparr> else None)\<rparr>"

section \<open>Properties of the polling loop\<close>

lemma poll_loop_exit:
  "status \<noteq> Some ''Creating'' \<Longrightarrow>
     poll_loop describe name status k tr = Some (status, k, tr)"
  by (subst poll_loop.simps) simp

lemma poll_loop_step:
  "poll_loop describe name (Some ''Creating'') k tr =
     poll_loop describe name (describe k) (Suc k) (tr @ poll_events name)"
  by (subst poll_loop.simps) simp

lemma poll_loop_run:
  "\<forall>i<m. describe (k + i) = Some ''Creating'' \<Longrightarrow>
     poll_loop describe name (Some ''Creating'') k tr =
     poll_loop describe name (describe (k + m)) (Suc (k + m))
       (tr @ concat (replicate (Suc m) (poll_events name)))"
proof (induction m arbitrary: k tr)
  case 0
  show ?case by (simp add: poll_loop_step)
next
  case (Suc m)
  have first: "describe k = Some ''Creating''"
    using Suc.prems by (simp add: All_less_Suc2)
  have rest: "\<forall>i<m. describe (Suc k + i) = Some ''Creating''"
    using Suc.prems by (simp add: All_less_Suc2)
  have "poll_loop describe name (Some ''Creating'') k tr =
        poll_loop describe name (Some ''Creating'') (Suc k) (tr @ poll_events name)"
    by (simp add: poll_loop_step first)
  also have "\<dots> = poll_loop describe name (describe (Suc k + m)) (Suc (Suc k + m))
        ((tr @ poll_events name) @ concat (replicate (Suc m) (poll_events name)))"
    using rest by (rule Suc.IH)
  finally show ?case by simp
qed

lemma poll_loop_from_first:
  assumes creating: "\<forall>i<n. describe i = Some ''Creating''"
    and final: "describe n \<noteq> Some ''Creating''"
  shows "poll_loop describe name (describe 0) (Suc 0) tr =
           Some (describe n, Suc n, tr @ concat (replicate n (poll_events name)))"
proof (cases n)
  case 0
  with final show ?thesis by (simp add: poll_loop_exit)
next
  case (Suc m)
  have start: "describe 0 = Some ''Creating''"
    using creating Suc by simp
  have rest: "\<forall>i<m. describe (Suc 0 + i) = Some ''Creating''"
    using creating Suc by simp
  have "poll_loop describe name (describe 0) (Suc 0) tr =
        poll_loop describe name (describe (Suc 0 + m)) (Suc (Suc 0 + m))
          (tr @ concat (replicate (Suc m) (poll_events name)))"
    unfolding start using rest by (rule poll_loop_run)
  also have "\<dots> = Some (describe n, Suc n, tr @ concat (replicate n (poll_events name)))"
    using final Suc by (simp add: poll_loop_exit)
  finally show ?thesis .
qed

lemma poll_loop_returns_only_after_leaving:
  assumes "poll_loop describe name status k tr = Some r"
  shows "status \<noteq> Some ''Creating'' \<or> (\<exists>j. describe j \<noteq> Some ''Creating'')"
proof (rule poll_loop.raw_induct
    [where P = "\<lambda>d nm s k tr r. s \<noteq> Some ''Creating'' \<or> (\<exists>j. d j \<noteq> Some ''Creating'')",
     OF _ assms])
  fix loop :: "(nat \<Rightarrow> string option) \<Rightarrow> string \<Rightarrow> string option \<Rightarrow> nat \<Rightarrow> event list
     \<Rightarrow> (string option \<times> nat \<times> event list) option"
  fix d nm s k tr r
  assume IH: "\<And>d nm s k tr r. loop d nm s k tr = Some r \<Longrightarrow>
     s \<noteq> Some ''Creating'' \<or> (\<exists>j. d j \<noteq> Some ''Creating'')"
  assume body: "(if s = Some ''Creating''
      then loop d nm (d k) (Suc k) (tr @ poll_events nm)
      else Some (s, k, tr)) = Some r"
  show "s \<noteq> Some ''Creating'' \<or> (\<exists>j. d j \<noteq> Some ''Creating'')"
  proof (cases "s = Some ''Creating''")
    case True
    with body have "loop d nm (d k) (Suc k) (tr @ poll_events nm) = Some r"
      by simp
    from IH [OF this] show ?thesis by blast
  next
    case False
    then show ?thesis by simp
  qed
qed

lemma least_non_creating:
  assumes "describe (k::nat) \<noteq> Some ''Creating''"
  obtains n where "describe n \<noteq> Some ''Creating''"
    and "\<forall>i<n. describe i = Some ''Creating''"
proof -
  let ?P = "\<lambda>j. describe j \<noteq> Some ''Creating''"
  have "?P (LEAST j. ?P j)"
    using assms LeastI [of ?P k] by simp
  moreover have "\<forall>i<(LEAST j. ?P j). describe i = Some ''Creating''"
    using not_less_Least [of _ ?P] by blast
  ultimately show thesis
    using that by blast
qed

text \<open>
  Claim C1. Let the \<open>n\<close>-th status be the first one that is not \<open>Creating\<close>. Then the
  function makes exactly \<open>n + 1\<close> describe calls and sleeps 5 seconds exactly \<open>n\<close>
  times, once before each re-poll; it returns normally when that status is
  \<open>Created\<close> and raises \<open>SystemExit\<close> for every other status; and the events listed
  are all it does.
\<close>

theorem wait_polls_exactly_while_creating:
  assumes "\<forall>i<n. describe i = Some ''Creating''"
    and "describe n \<noteq> Some ''Creating''"
  shows "wait_for_feature_group_creation_complete describe name =
     Some (if describe n = Some ''Created''
           then (Inr (),
                 [Describe, Print (''Initial status: '' @ fmt (describe 0))]
                   @ concat (replicate n [LogInfo (waiting_msg name), Sleep 5, Describe])
                   @ [LogInfo (created_msg name)])
           else (Inl (SystemExit (failed_msg name (describe n))),
                 [Describe, Print (''Initial status: '' @ fmt (describe 0))]
                   @ concat (replicate n [LogInfo (waiting_msg name), Sleep 5, Describe])))"
  unfolding wait_for_feature_group_creation_complete_def Let_def
  using assms by (simp add: poll_loop_from_first poll_events_def)

theorem wait_polls_exactly_while_creating_witness:
  "wait_for_feature_group_creation_complete
      (\<lambda>k. if k < 2 then Some ''Creating'' else Some ''Created'') ''orders'' =
     Some (Inr (),
       [Describe, Print ''Initial status: Creating'',
        LogInfo ''Waiting for feature group: orders to be created ...'', Sleep 5, Describe,
        LogInfo ''Waiting for feature group: orders to be created ...'', Sleep 5, Describe,
        LogInfo ''FeatureGroup orders was successfully created.''])
   \<and> wait_for_feature_group_creation_complete
      (\<lambda>k. if k < 1 then Some ''Creating'' else Some ''CreateFailed'') ''orders'' =
     Some (Inl (SystemExit ''Failed to create feature group orders: CreateFailed''),
       [Describe, Print ''Initial status: Creating'',
        LogInfo ''Waiting for feature group: orders to be created ...'', Sleep 5, Describe])"
proof -
  have a: "wait_for_feature_group_creation_complete
      (\<lambda>k. if k < 2 then Some ''Creating'' else Some ''Created'') ''orders'' =
     Some (Inr (),
       [Describe, Print ''Initial status: Creating'',
        LogInfo ''Waiting for feature group: orders to be created ...'', Sleep 5, Describe,
        LogInfo ''Waiting for feature group: orders to be created ...'', Sleep 5, Describe,
        LogInfo ''FeatureGroup orders was successfully created.''])"
    using wait_polls_exactly_while_creating
      [of 2 "\<lambda>k. if k < 2 then Some ''Creating'' else Some ''Created''" "''orders''"]
    by (simp add: waiting_msg_def created_msg_def numeral_2_eq_2)
  have b: "wait_for_feature_group_creation_complete
      (\<lambda>k. if k < 1 then Some ''Creating'' else Some ''CreateFailed'') ''orders'' =
     Some (Inl (SystemExit ''Failed to create feature group orders: CreateFailed''),
       [Describe, Print ''Initial status: Creating'',
        LogInfo ''Waiting for feature group: orders to be created ...'', Sleep 5, Describe])"
    using wait_polls_exactly_while_creating
      [of 1 "\<lambda>k. if k < 1 then Some ''Creating'' else Some ''CreateFailed''" "''orders''"]
    by (simp add: waiting_msg_def failed_msg_def)
  from a b show ?thesis by simp
qed

text \<open>
  Claim C2. The function returns (normally or by raising) if and only if some
  describe call returns a status other than \<open>Creating\<close>. In particular it is total on
  every status stream that leaves \<open>Creating\<close>, and on the stream that is \<open>Creating\<close>
  for ever it never returns: nothing in the loop bounds the number of polls.
\<close>

theorem wait_terminates_iff_status_leaves_creating:
  "(\<exists>r. wait_for_feature_group_creation_complete describe name = Some r)
     \<longleftrightarrow> (\<exists>k. describe k \<noteq> Some ''Creating'')"
proof
  assume "\<exists>r. wait_for_feature_group_creation_complete describe name = Some r"
  then obtain r where r: "wait_for_feature_group_creation_complete describe name = Some r"
    by blast
  then obtain q where
    "poll_loop describe name (describe 0) (Suc 0)
       [Describe, Print (''Initial status: '' @ fmt (describe 0))] = Some q"
    unfolding wait_for_feature_group_creation_complete_def Let_def
    by (auto split: option.splits)
  from poll_loop_returns_only_after_leaving [OF this]
  show "\<exists>k. describe k \<noteq> Some ''Creating''"
    by blast
next
  assume "\<exists>k. describe k \<noteq> Some ''Creating''"
  then obtain k where "describe k \<noteq> Some ''Creating''"
    by blast
  then obtain n where final: "describe n \<noteq> Some ''Creating''"
    and creating: "\<forall>i<n. describe i = Some ''Creating''"
    by (rule least_non_creating)
  show "\<exists>r. wait_for_feature_group_creation_complete describe name = Some r"
    unfolding wait_for_feature_group_creation_complete_def Let_def
    using creating final by (simp add: poll_loop_from_first)
qed

theorem wait_terminates_iff_status_leaves_creating_witness:
  "wait_for_feature_group_creation_complete (\<lambda>k. Some ''Creating'') ''orders'' = None
   \<and> (\<exists>r. wait_for_feature_group_creation_complete
             (\<lambda>k. if k < 3 then Some ''Creating'' else None) ''orders'' = Some r)"
proof -
  have "\<not> (\<exists>r. wait_for_feature_group_creation_complete
                 (\<lambda>k. Some ''Creating'') ''orders'' = Some r)"
    using wait_terminates_iff_status_leaves_creating [of "\<lambda>k. Some ''Creating''" "''orders''"]
    by simp
  then have "wait_for_feature_group_creation_complete (\<lambda>k. Some ''Creating'') ''orders'' = None"
    by (metis not_Some_eq)
  moreover have "\<exists>r. wait_for_feature_group_creation_complete
             (\<lambda>k. if k < 3 then Some ''Creating'' else None) ''orders'' = Some r"
    using wait_terminates_iff_status_leaves_creating
      [of "\<lambda>k. if k < 3 then Some ''Creating'' else None" "''orders''"]
    by (auto intro: exI [of _ 3])
  ultimately show ?thesis by simp
qed

section \<open>Properties of \<open>generate_fsets\<close>\<close>

lemma exclude_rows_ok:
  "\<not> truthy exclude_fsets \<or> defs \<noteq> [] \<Longrightarrow>
     exclude_rows exclude_fsets (fd_DataFrame defs) =
       Inr ((fd_DataFrame defs)\<lparr>fd_rows :=
              filter (\<lambda>d. \<not> isin (FeatureName d) exclude_fsets) defs\<rparr>)"
proof (cases exclude_fsets)
  case None
  then show ?thesis by (simp add: exclude_rows_def fd_DataFrame_def)
next
  case (Some xs)
  assume "\<not> truthy exclude_fsets \<or> defs \<noteq> []"
  with Some show ?thesis
    by (cases "xs = []") (auto simp: exclude_rows_def fd_DataFrame_def)
qed

lemma generate_fsets_loop_ok:
  "\<not> truthy exclude_fsets \<or>
     (\<forall>fg \<in> set fg_list. FeatureDefinitions (describe (FeatureGroupName fg)) \<noteq> []) \<Longrightarrow>
   \<exists>fs. generate_fsets_loop describe exclude_fsets fg_list fg_lst = Inr (fg_lst @ fs)
     \<and> length fs = length fg_list
     \<and> concat (map fd_rows fs) =
         filter (\<lambda>d. \<not> isin (FeatureName d) exclude_fsets) (all_definitions describe fg_list)"
proof (induction fg_list arbitrary: fg_lst)
  case Nil
  show ?case by (simp add: all_definitions_def)
next
  case (Cons fg fg_list)
  let ?defs = "FeatureDefinitions (describe (FeatureGroupName fg))"
  let ?tmp = "(fd_DataFrame ?defs)\<lparr>fd_rows :=
                 filter (\<lambda>d. \<not> isin (FeatureName d) exclude_fsets) ?defs\<rparr>"
  have head: "exclude_rows exclude_fsets (fd_DataFrame ?defs) = Inr ?tmp"
    using Cons.prems by (intro exclude_rows_ok) auto
  have tail: "\<not> truthy exclude_fsets \<or>
     (\<forall>fg \<in> set fg_list. FeatureDefinitions (describe (FeatureGroupName fg)) \<noteq> [])"
    using Cons.prems by auto
  from Cons.IH [OF tail, of "fg_lst @ [?tmp]"]
  obtain fs where fs:
    "generate_fsets_loop describe exclude_fsets fg_list (fg_lst @ [?tmp]) = Inr ((fg_lst @ [?tmp]) @ fs)"
    "length fs = length fg_list"
    "concat (map fd_rows fs) =
       filter (\<lambda>d. \<not> isin (FeatureName d) exclude_fsets) (all_definitions describe fg_list)"
    by blast
  have "generate_fsets_loop describe exclude_fsets (fg # fg_list) fg_lst = Inr (fg_lst @ (?tmp # fs))"
    using head fs(1) by simp
  moreover have "length (?tmp # fs) = length (fg # fg_list)"
    using fs(2) by simp
  moreover have "concat (map fd_rows (?tmp # fs)) =
      filter (\<lambda>d. \<not> isin (FeatureName d) exclude_fsets) (all_definitions describe (fg # fg_list))"
    using fs(3) by (simp add: all_definitions_def)
  ultimately show ?case by blast
qed

text \<open>
  Claim C10, amended. For every non-empty list of feature-group descriptions and every
  exclusion list, provided each group has at least one feature definition when the
  exclusion list is non-empty, \<open>generate_fsets\<close> returns the concatenation of the groups'
  feature definitions, in the order the groups are given, without the definitions whose
  name is in the exclusion list: no excluded name is left, the survivors keep their
  relative order, and when \<open>exclude_fsets\<close> is \<open>None\<close> or empty nothing is removed.
\<close>

theorem generate_fsets_concatenates_surviving_definitions:
  assumes "fg_list \<noteq> []"
    and "\<not> truthy exclude_fsets \<or>
       (\<forall>fg \<in> set fg_list. FeatureDefinitions (describe (FeatureGroupName fg)) \<noteq> [])"
  shows "\<exists>df. generate_fsets describe fg_list exclude_fsets = Inr df
     \<and> fd_rows df = filter (\<lambda>d. \<not> isin (FeatureName d) exclude_fsets)
                       (all_definitions describe fg_list)
     \<and> (\<forall>d \<in> set (fd_rows df). \<not> isin (FeatureName d) exclude_fsets)
     \<and> subseq (fd_rows df) (all_definitions describe fg_list)
     \<and> (\<not> truthy exclude_fsets \<longrightarrow> fd_rows df = all_definitions describe fg_list)"
proof -
  from generate_fsets_loop_ok [OF assms(2), of "[]"]
  obtain fs where fs:
    "generate_fsets_loop describe exclude_fsets fg_list [] = Inr fs"
    "length fs = length fg_list"
    "concat (map fd_rows fs) =
       filter (\<lambda>d. \<not> isin (FeatureName d) exclude_fsets) (all_definitions describe fg_list)"
    by auto
  from fs(2) assms(1) have "fs \<noteq> []" by auto
  let ?df = "\<lparr>fd_columns = union_columns [] (concat (map fd_columns fs)),
              fd_rows = concat (map fd_rows fs)\<rparr>"
  have run: "generate_fsets describe fg_list exclude_fsets = Inr ?df"
    using fs(1) \<open>fs \<noteq> []\<close> by (simp add: generate_fsets_def fd_concat_def)
  have rows: "fd_rows ?df = filter (\<lambda>d. \<not> isin (FeatureName d) exclude_fsets)
                       (all_definitions describe fg_list)"
    using fs(3) by simp
  have none: "\<not> truthy exclude_fsets \<Longrightarrow>
      filter (\<lambda>d. \<not> isin (FeatureName d) exclude_fsets) (all_definitions describe fg_list)
        = all_definitions describe fg_list"
    by (cases exclude_fsets) auto
  show ?thesis
    using run rows none by (intro exI [of _ ?df]) (auto simp del: fd_frame.simps)
qed


text \<open>
  Claim C10 as stated covers every list of descriptions. On the empty list the loop
  body never runs and \<open>pd.concat\<close> is given no frame: the function raises instead of
  returning an empty concatenation.
\<close>

theorem generate_fsets_no_groups_counterexample:
  "generate_fsets sample_describe [] None = Inl ValueError"
  by (simp add: generate_fsets_def fd_concat_def)

theorem generate_fsets_concatenates_surviving_definitions_witness:
  "[sample_group ''orders'', sample_group ''customers''] \<noteq> []
   \<and> FeatureDefinitions (sample_describe (FeatureGroupName (sample_group ''orders''))) \<noteq> []
   \<and> FeatureDefinitions (sample_describe (FeatureGroupName (sample_group ''customers''))) \<noteq> []
   \<and> generate_fsets sample_describe [sample_group ''orders'', sample_group ''customers'']
      (Some [''order_id'', ''customer_id'']) =
     Inr \<lparr>fd_columns = [''FeatureName'', ''FeatureType''],
          fd_rows = [\<lparr>FeatureName = ''is_reordered'', FeatureType = ''Integral''\<rparr>,
                     \<lparr>FeatureName = ''age_18-29'', FeatureType = ''Integral''\<rparr>]\<rparr>"
  using generate_fsets_concatenates_surviving_definitions
    [of "[sample_group ''orders'', sample_group ''customers'']"
        "Some [''order_id'', ''customer_id'']" sample_describe]
  by (simp add: generate_fsets_def fd_concat_def exclude_rows_def fd_DataFrame_def
      sample_describe_def sample_group_def)

section \<open>Properties of the version gates\<close>

lemma py_int_plain_digits:
  "py_int ''3'' = Inr 3" "py_int ''0'' = Inr 0" "py_int ''2'' = Inr 2" "py_int ''1'' = Inr 1"
  "py_int ''125'' = Inr 125" "py_int ''48'' = Inr 48"
  by (simp_all add: py_int_def strip_def is_space_def is_digit_def digit_value_def)

lemma iceberg_gate_low_minor:
  assumes "split (CHR ''.'') v = [major, minor, patch]"
    and "py_int major = Inr ma" and "py_int minor = Inr mi" and "mi < 125"
  shows "iceberg_version_gate v = Inr [PipInstall ''sagemaker==2.125.0'', Reload ''sagemaker'']"
  using assms by (simp add: iceberg_version_gate_def)

text \<open>
  Claim C9, amended. The string comparison of the first gate holds for \<open>2.125.0\<close>,
  which is numerically newer than \<open>2.48.1\<close>, so the gate installs the older \<open>2.48.1\<close>
  over it. The gate of the Iceberg notebook reinstalls \<open>2.125.0\<close> for every version
  that has exactly three dot-separated components, of which \<open>int\<close> reads the first two,
  and whose minor component is below 125, whatever the major component is; \<open>3.0.0\<close>,
  numerically newer than \<open>2.125.0\<close>, is one of them.
\<close>

theorem version_gates_misclassify_newer_versions:
  "sagemaker_version_gate ''2.125.0'' = [PipInstall ''sagemaker==2.48.1'', Reload ''sagemaker'']
   \<and> numerically_newer ''2.125.0'' ''2.48.1''
   \<and> (\<forall>v major minor patch ma mi.
         split (CHR ''.'') v = [major, minor, patch] \<longrightarrow>
         py_int major = Inr ma \<longrightarrow> py_int minor = Inr mi \<longrightarrow> mi < 125 \<longrightarrow>
         iceberg_version_gate v = Inr [PipInstall ''sagemaker==2.125.0'', Reload ''sagemaker''])
   \<and> iceberg_version_gate ''3.0.0'' = Inr [PipInstall ''sagemaker==2.125.0'', Reload ''sagemaker'']
   \<and> numerically_newer ''3.0.0'' ''2.125.0''"
proof -
  have first: "sagemaker_version_gate ''2.125.0'' =
      [PipInstall ''sagemaker==2.48.1'', Reload ''sagemaker'']"
    by (simp add: sagemaker_version_gate_def)
  have newer1: "numerically_newer ''2.125.0'' ''2.48.1''"
    by (simp add: numerically_newer_def version_tuple_def py_int_plain_digits)
  have second: "\<forall>v major minor patch ma mi.
         split (CHR ''.'') v = [major, minor, patch] \<longrightarrow>
         py_int major = Inr ma \<longrightarrow> py_int minor = Inr mi \<longrightarrow> mi < 125 \<longrightarrow>
         iceberg_version_gate v = Inr [PipInstall ''sagemaker==2.125.0'', Reload ''sagemaker'']"
    using iceberg_gate_low_minor by blast
  have three: "iceberg_version_gate ''3.0.0'' =
      Inr [PipInstall ''sagemaker==2.125.0'', Reload ''sagemaker'']"
    by (simp add: iceberg_version_gate_def py_int_plain_digits)
  have newer2: "numerically_newer ''3.0.0'' ''2.125.0''"
    by (simp add: numerically_newer_def version_tuple_def py_int_plain_digits)
  from first newer1 second three newer2 show ?thesis
    by blast
qed

text \<open>
  Claim C9 as stated has the Iceberg gate reinstall for every version whose minor
  component is below 125. A version with a fourth component, such as \<open>3.0.0.dev0\<close>
  with minor component 0, does not fit the three names of the unpacking: the cell
  raises \<open>ValueError\<close> and installs nothing.
\<close>

theorem iceberg_gate_four_components_counterexample:
  "split (CHR ''.'') ''3.0.0.dev0'' = [''3'', ''0'', ''0'', ''dev0'']
   \<and> py_int ''0'' = Inr 0 \<and> (0::int) < 125
   \<and> iceberg_version_gate ''3.0.0.dev0'' = Inl ValueError"
  by (simp add: iceberg_version_gate_def py_int_plain_digits)

theorem version_gates_misclassify_newer_versions_witness:
  "split (CHR ''.'') ''4.7.2'' = [''4'', ''7'', ''2'']
   \<and> py_int ''4'' = Inr 4 \<and> py_int ''7'' = Inr 7 \<and> (7::int) < 125
   \<and> iceberg_version_gate ''4.7.2'' = Inr [PipInstall ''sagemaker==2.125.0'', Reload ''sagemaker'']"
proof -
  have s: "split (CHR ''.'') ''4.7.2'' = [''4'', ''7'', ''2'']"
    by simp
  have ma: "py_int ''4'' = Inr 4" and mi: "py_int ''7'' = Inr 7"
    by (simp_all add: py_int_def strip_def is_space_def is_digit_def digit_value_def)
  have "iceberg_version_gate ''4.7.2'' =
      Inr [PipInstall ''sagemaker==2.125.0'', Reload ''sagemaker'']"
    using version_gates_misclassify_newer_versions s ma mi by simp
  with s ma mi show ?thesis by simp
qed

section \<open>Properties of the Athena query\<close>





section \<open>Properties of the feature search\<close>

lemma split_not_empty: "split sep s \<noteq> []"
  by (induction s) (auto split: list.splits)

lemma length_split: "length (split sep s) = Suc (length (filter (\<lambda>c. c = sep) s))"
proof (induction s)
  case Nil
  show ?case by simp
next
  case (Cons c cs)
  obtain p ps where "split sep cs = p # ps"
    using split_not_empty [of sep cs] by (cases "split sep cs") auto
  with Cons show ?case by auto
qed

lemma index_split_dotted:
  "CHR ''.'' \<in> set col \<Longrightarrow> index (split (CHR ''.'') col) 1 = Inr (label_after_dot col)"
proof -
  assume "CHR ''.'' \<in> set col"
  then have "filter (\<lambda>c. c = CHR ''.'') col \<noteq> []"
    by (auto simp: filter_empty_conv)
  then have "1 < length (split (CHR ''.'') col)"
    by (simp add: length_split)
  then show ?thesis
    by (simp add: index_def label_after_dot_def)
qed

lemma index_split_undotted:
  "CHR ''.'' \<notin> set col \<Longrightarrow> index (split (CHR ''.'') col) 1 = Inl IndexError"
proof -
  assume "CHR ''.'' \<notin> set col"
  then have "filter (\<lambda>c. c = CHR ''.'') col = []"
    by (auto simp: filter_empty_conv)
  then have "length (split (CHR ''.'') col) = 1"
    by (simp add: length_split)
  then show ?thesis
    by (simp add: index_def)
qed

lemma map_labels_dotted:
  "\<forall>c \<in> set (map fst cs). CHR ''.'' \<in> set c \<Longrightarrow>
     map_labels (\<lambda>col. index (split (CHR ''.'') col) 1) cs =
       Inr (map (\<lambda>(c, vs). (label_after_dot c, vs)) cs)"
proof (induction cs)
  case Nil
  show ?case by simp
next
  case (Cons a cs)
  obtain c vs where a: "a = (c, vs)" by (cases a)
  with Cons show ?case by (simp add: index_split_dotted del: One_nat_def)
qed

lemma map_labels_undotted:
  "\<exists>c \<in> set (map fst cs). CHR ''.'' \<notin> set c \<Longrightarrow>
     map_labels (\<lambda>col. index (split (CHR ''.'') col) 1) cs = Inl IndexError"
proof (induction cs)
  case Nil
  then show ?case by simp
next
  case (Cons a cs)
  obtain c vs where a: "a = (c, vs)" by (cases a)
  show ?case
  proof (cases "CHR ''.'' \<in> set c")
    case True
    with Cons a show ?thesis by (simp add: index_split_dotted del: One_nat_def)
  next
    case False
    with a show ?thesis by (simp add: index_split_undotted del: One_nat_def)
  qed
qed






lemma after_dot_sample:
  "label_after_dot ''FeatureMetadata.FeatureGroupArn'' = ''FeatureGroupArn''"
  "label_after_dot ''FeatureMetadata.FeatureName'' = ''FeatureName''"
  "label_after_dot ''FeatureMetadata.Description'' = ''Description''"
  by (simp_all add: label_after_dot_def)



text \<open>
  Claim C8. The function is partial. If some normalized column label has no dot, the
  rename raises \<open>IndexError\<close>. If every label has a dot but none ends in
  \<open>FeatureGroupArn\<close>, the drop raises \<open>KeyError\<close>. In particular, when the search
  returns no result and the normalized frame of the empty list has no column, as it
  has in pandas, the function raises \<open>KeyError\<close> and returns no frame.
\<close>

theorem search_features_using_string_partial:
  assumes "json_normalize (search (search_arguments s)) 1 = df"
  shows "((\<exists>c \<in> set (columns df). CHR ''.'' \<notin> set c) \<longrightarrow>
            search_features_using_string search json_normalize s = Inl IndexError)
    \<and> ((\<forall>c \<in> set (columns df). CHR ''.'' \<in> set c)
          \<and> ''FeatureGroupArn'' \<notin> set (map label_after_dot (columns df)) \<longrightarrow>
            search_features_using_string search json_normalize s =
              Inl (KeyError ''FeatureGroupArn''))
    \<and> (search (search_arguments s) = [] \<and> cols (json_normalize [] 1) = [] \<longrightarrow>
            search_features_using_string search json_normalize s =
              Inl (KeyError ''FeatureGroupArn''))"
proof (intro conjI impI)
  assume "\<exists>c \<in> set (columns df). CHR ''.'' \<notin> set c"
  then have "map_labels (\<lambda>col. index (split (CHR ''.'') col) 1) (cols df) = Inl IndexError"
    by (intro map_labels_undotted) (simp add: columns_def)
  with assms show "search_features_using_string search json_normalize s = Inl IndexError"
    by (simp add: search_features_using_string_def Let_def)
next
  assume a: "(\<forall>c \<in> set (columns df). CHR ''.'' \<in> set c)
      \<and> ''FeatureGroupArn'' \<notin> set (map label_after_dot (columns df))"
  then have renamed: "map_labels (\<lambda>col. index (split (CHR ''.'') col) 1) (cols df) =
      Inr (map (\<lambda>(c, vs). (label_after_dot c, vs)) (cols df))"
    by (intro map_labels_dotted) (simp add: columns_def)
  have labels: "map fst (map (\<lambda>(c, vs). (label_after_dot c, vs)) (cols df)) =
      map label_after_dot (columns df)"
    by (simp add: columns_def case_prod_unfold comp_def)
  show "search_features_using_string search json_normalize s = Inl (KeyError ''FeatureGroupArn'')"
    using assms a renamed labels
    by (simp add: search_features_using_string_def Let_def drop_axis1_def columns_def)
next
  assume "search (search_arguments s) = [] \<and> cols (json_normalize [] 1) = []"
  with assms have "cols df = []" by auto
  with assms show "search_features_using_string search json_normalize s =
      Inl (KeyError ''FeatureGroupArn'')"
    by (simp add: search_features_using_string_def Let_def drop_axis1_def columns_def)
qed

theorem search_features_using_string_partial_witness:
  "search_features_using_string (search_returning undotted_results) normalize_nested ''married'' =
     Inl IndexError
   \<and> search_features_using_string (search_returning arnless_results) normalize_nested ''married'' =
     Inl (KeyError ''FeatureGroupArn'')
   \<and> search_features_using_string (search_returning []) normalize_nested ''married'' =
     Inl (KeyError ''FeatureGroupArn'')"
proof -
  have u: "\<And>level. normalize_nested undotted_results level =
      \<lparr>nrows = 1, cols = [(''Score'', [Some ''1'']),
                          (''FeatureMetadata.FeatureGroupArn'', [Some ''arn:fg/customers''])]\<rparr>"
    by (simp add: normalize_nested_def undotted_results_def flatten_result_def
        flatten_inner_def move_under_def)
  have a: "\<And>level. normalize_nested arnless_results level =
      \<lparr>nrows = 1, cols = [(''FeatureMetadata.FeatureName'', [Some ''age''])]\<rparr>"
    by (simp add: normalize_nested_def arnless_results_def flatten_result_def
        flatten_inner_def move_under_def)
  have e: "\<And>level. normalize_nested [] level = \<lparr>nrows = 0, cols = []\<rparr>"
    by (simp add: normalize_nested_def)
  have "search_features_using_string (search_returning undotted_results) normalize_nested
      ''married'' = Inl IndexError"
    using search_features_using_string_partial
      [of normalize_nested "search_returning undotted_results" "''married''"
          "normalize_nested undotted_results 1"]
    by (simp add: search_returning_def u columns_def)
  moreover have "search_features_using_string (search_returning arnless_results) normalize_nested
      ''married'' = Inl (KeyError ''FeatureGroupArn'')"
    using search_features_using_string_partial
      [of normalize_nested "search_returning arnless_results" "''married''"
          "normalize_nested arnless_results 1"]
    by (simp add: search_returning_def a columns_def after_dot_sample)
  moreover have "search_features_using_string (search_returning []) normalize_nested
      ''married'' = Inl (KeyError ''FeatureGroupArn'')"
    using search_features_using_string_partial
      [of normalize_nested "search_returning []" "''married''" "normalize_nested [] 1"]
    by (simp add: search_returning_def e)
  ultimately show ?thesis by simp
qed

section \<open>Properties of the customers frame\<close>

lemma randint_0_2:
  "randint raw 0 2 n = Inr (map (\<lambda>i. int (raw i mod 2)) [0..<n])"
  by (simp add: randint_def)

lemma setitem_new_label:
  "length values = nrows df \<Longrightarrow> label \<notin> set (columns df) \<Longrightarrow>
     setitem label values df = Inr (df\<lparr>cols := cols df @ [(label, values)]\<rparr>)"
  by (simp add: setitem_def)

lemma drop_labels_present:
  "label \<in> set (columns df) \<Longrightarrow>
     drop_labels [label] df = Inr (df\<lparr>cols := filter (\<lambda>(c, vs). c \<noteq> label) (cols df)\<rparr>)"
  by (simp add: drop_labels_def)

lemma columns_after_filter:
  "label \<notin> set (map fst (filter (\<lambda>(c, vs). c \<noteq> label) cs))"
  by (induction cs) auto

text \<open>
  Claim C6. For a customers file that has an \<open>event_time\<close> column and no \<open>has_kids\<close>
  column, the prepared frame has the same number of rows; its columns are the columns
  of the file other than \<open>event_time\<close>, in their order and with their values, followed
  by the new \<open>has_kids\<close> column, one value per row and each value 0 or 1, and by a
  new \<open>event_time\<close> column holding one freshly generated timestamp string per row.
\<close>

theorem customers_df_changes_two_columns:
  assumes "''event_time'' \<in> set (columns customers_df)"
    and "''has_kids'' \<notin> set (columns customers_df)"
  shows "\<exists>has_kids event_timestamps.
     prepare_customers_df raw now customers_df =
       Inr \<lparr>nrows = nrows customers_df,
            cols = filter (\<lambda>(c, vs). c \<noteq> ''event_time'') (cols customers_df)
                     @ [(''has_kids'', map IntCell has_kids),
                        (''event_time'', map StrCell event_timestamps)]\<rparr>
     \<and> length has_kids = nrows customers_df
     \<and> (\<forall>k \<in> set has_kids. k = 0 \<or> k = 1)
     \<and> event_timestamps =
         map (\<lambda>k. generate_event_timestamp (now k)) [0..<nrows customers_df]"
proof -
  let ?n = "nrows customers_df"
  let ?ks = "map (\<lambda>i. int (raw i mod 2)) [0..<?n]"
  let ?ts = "map (\<lambda>k. generate_event_timestamp (now k)) [0..<?n]"
  let ?df1 = "customers_df\<lparr>cols := cols customers_df @ [(''has_kids'', map IntCell ?ks)]\<rparr>"
  let ?df2 = "?df1\<lparr>cols := filter (\<lambda>(c, vs). c \<noteq> ''event_time'') (cols ?df1)\<rparr>"
  have step1: "setitem ''has_kids'' (map IntCell ?ks) customers_df = Inr ?df1"
    using assms(2) by (intro setitem_new_label) simp_all
  have "''event_time'' \<in> set (columns ?df1)"
    using assms(1) by (simp add: columns_def)
  then have step2: "drop_labels [''event_time''] ?df1 = Inr ?df2"
    by (rule drop_labels_present)
  have "''event_time'' \<notin> set (columns ?df2)"
    using columns_after_filter [of "''event_time''" "cols ?df1"] by (simp add: columns_def)
  moreover have "length (map (\<lambda>k. StrCell (generate_event_timestamp (now k)) :: 'a cell)
      [0..<nrows ?df2]) = nrows ?df2"
    by simp
  ultimately have step3: "setitem ''event_time''
      (map (\<lambda>k. StrCell (generate_event_timestamp (now k))) [0..<nrows ?df2]) ?df2 =
      Inr (?df2\<lparr>cols := cols ?df2 @ [(''event_time'',
             map (\<lambda>k. StrCell (generate_event_timestamp (now k))) [0..<nrows ?df2])]\<rparr>)"
    by (intro setitem_new_label)
  have run: "prepare_customers_df raw now customers_df =
       Inr \<lparr>nrows = ?n,
            cols = filter (\<lambda>(c, vs). c \<noteq> ''event_time'') (cols customers_df)
                     @ [(''has_kids'', map IntCell ?ks), (''event_time'', map StrCell ?ts)]\<rparr>"
    unfolding prepare_customers_df_def randint_0_2
    by (simp only: step1 step2 step3 sum.case) (simp add: comp_def)
  have range: "\<forall>k \<in> set ?ks. k = 0 \<or> k = 1"
    by auto
  show ?thesis
    using run range by (intro exI [of _ ?ks] exI [of _ ?ts]) simp
qed

theorem customers_df_changes_two_columns_witness:
  "''event_time'' \<in> set (columns sample_customers)
   \<and> ''has_kids'' \<notin> set (columns sample_customers)
   \<and> prepare_customers_df sample_raw sample_now sample_customers =
       Inr \<lparr>nrows = 2,
            cols = [(''customer_id'', [StrCell ''C1'', StrCell ''C2'']),
                    (''is_married'', [IntCell 1, IntCell 0]),
                    (''has_kids'', [IntCell 1, IntCell 0]),
                    (''event_time'', [StrCell ''2023-01-05T14:03:09.041Z'',
                                      StrCell ''2023-01-05T14:03:09.042Z''])]\<rparr>"
proof -
  have et: "''event_time'' \<in> set (columns sample_customers)"
    and hk: "''has_kids'' \<notin> set (columns sample_customers)"
    by (simp_all add: columns_def sample_customers_def)
  have t0: "generate_event_timestamp (sample_now 0) = ''2023-01-05T14:03:09.041Z''"
    and t1: "generate_event_timestamp (sample_now (Suc 0)) = ''2023-01-05T14:03:09.042Z''"
    by (simp_all add: generate_event_timestamp_def isoformat_milliseconds_def sample_now_def
        replace_def zfill_def decimal.simps digit_char_def)
  have two: "[0..<2] = [0, Suc 0]"
    by (simp add: numeral_2_eq_2)
  from customers_df_changes_two_columns [OF et hk, of sample_raw sample_now]
  obtain has_kids event_timestamps where
    run: "prepare_customers_df sample_raw sample_now sample_customers =
       Inr \<lparr>nrows = nrows sample_customers,
            cols = filter (\<lambda>(c, vs). c \<noteq> ''event_time'') (cols sample_customers)
                     @ [(''has_kids'', map IntCell has_kids),
                        (''event_time'', map StrCell event_timestamps)]\<rparr>"
    and ts: "event_timestamps =
         map (\<lambda>k. generate_event_timestamp (sample_now k)) [0..<nrows sample_customers]"
    by blast
  have "prepare_customers_df sample_raw sample_now sample_customers =
       Inr \<lparr>nrows = 2,
            cols = [(''customer_id'', [StrCell ''C1'', StrCell ''C2'']),
                    (''is_married'', [IntCell 1, IntCell 0]),
                    (''has_kids'', [IntCell 1, IntCell 0]),
                    (''event_time'', [StrCell ''2023-01-05T14:03:09.041Z'',
                                      StrCell ''2023-01-05T14:03:09.042Z''])]\<rparr>"
    by (simp add: prepare_customers_df_def randint_def setitem_def drop_labels_def columns_def
        sample_customers_def sample_raw_def t0 t1 two)
  with et hk run show ?thesis by simp
qed

section \<open>Properties of the batch transform call\<close>

lemma input_selection: "path_selection ''$[2:]'' = Some (From 2)"
  by (simp add: path_selection_def is_digit_def decimal_value_def digit_value_def)

lemma whole_selection: "path_selection ''$'' = Some Whole"
  by (simp add: path_selection_def)

text \<open>
  Claim C5. Whatever the input location, the job is started with content type
  \<open>text/csv\<close>, split type \<open>Line\<close>, input filter \<open>$[2:]\<close>, join source \<open>Input\<close> and no output
  filter, which stands for \<open>$\<close>. So the model is given every column of an input line
  except columns 0 and 1, and the output row is the whole input line followed by the
  prediction.
\<close>

theorem transform_started_with_filter_and_join:
  "content_type (xgb_transform_arguments destination_s3_path) = Some ''text/csv''
   \<and> split_type (xgb_transform_arguments destination_s3_path) = Some ''Line''
   \<and> input_filter (xgb_transform_arguments destination_s3_path) = Some ''$[2:]''
   \<and> join_source (xgb_transform_arguments destination_s3_path) = Some ''Input''
   \<and> output_filter (xgb_transform_arguments destination_s3_path) = None
   \<and> effective_filter (output_filter (xgb_transform_arguments destination_s3_path)) = ''$''
   \<and> model_input (xgb_transform_arguments destination_s3_path) line = Some (drop 2 line)
   \<and> output_row (xgb_transform_arguments destination_s3_path) model line =
       Some (line @ model (drop 2 line))"
  by (simp add: xgb_transform_arguments_def effective_filter_def model_input_def
      output_row_def input_selection whole_selection)

theorem transform_started_with_filter_and_join_witness:
  "model_input (xgb_transform_arguments ''s3://bucket/batch'')
      [''O1'', ''1'', ''0.5'', ''0'', ''1''] = Some [''0.5'', ''0'', ''1'']
   \<and> output_row (xgb_transform_arguments ''s3://bucket/batch'') sample_model
      [''O1'', ''1'', ''0.5'', ''0'', ''1''] = Some [''O1'', ''1'', ''0.5'', ''0'', ''1'', ''0.75'']"
  using transform_started_with_filter_and_join
    [of "''s3://bucket/batch''" "[''O1'', ''1'', ''0.5'', ''0'', ''1'']" sample_model]
  by (simp add: sample_model_def)

section \<open>Properties of the create call\<close>

text \<open>
  Claim C7. The orders feature group of the Iceberg notebook is created with record
  identifier \<open>order_id\<close>, event-time feature \<open>event_time\<close>, the online store enabled, the
  table format \<open>ICEBERG\<close> and the offline store at \<open>s3://{bucket}/sagemaker-feature-store\<close>.
  The request therefore has an online store configuration and an offline store
  configuration with that S3 location, and the table format is a field of the offline
  store configuration only: another choice of it changes nothing else in the request.
\<close>

theorem orders_group_created_with_iceberg_offline_store:
  "record_identifier_name (orders_create_arguments bucket role) = ''order_id''
   \<and> event_time_feature_name (orders_create_arguments bucket role) = ''event_time''
   \<and> enable_online_store (orders_create_arguments bucket role) = True
   \<and> table_format (orders_create_arguments bucket role) = Some ICEBERG
   \<and> s3_uri (orders_create_arguments bucket role) =
       ''s3://'' @ bucket @ ''/sagemaker-feature-store''
   \<and> role_arn (orders_create_arguments bucket role) = role
   \<and> OnlineStoreConfig (create_request (orders_create_arguments bucket role)) =
       Some \<lparr>EnableOnlineStore = True\<rparr>
   \<and> OfflineStoreConfig (create_request (orders_create_arguments bucket role)) =
       Some \<lparr>S3Uri = ''s3://'' @ bucket @ ''/sagemaker-feature-store'',
             TableFormat = Some ICEBERG\<rparr>
   \<and> create_request ((orders_create_arguments bucket role)\<lparr>table_format := tf\<rparr>) =
       (create_request (orders_create_arguments bucket role))
         \<lparr>OfflineStoreConfig :=
            Some \<lparr>S3Uri = ''s3://'' @ bucket @ ''/sagemaker-feature-store'',
                  TableFormat = tf\<rparr>\<rparr>"
  by (simp add: orders_create_arguments_def create_request_def prefix_str_def
      record_identifier_order_feature_name_def)

theorem orders_group_created_with_iceberg_offline_store_witness:
  "create_request (orders_create_arguments ''sagemaker-eu-west-2-123'' ''arn:aws:iam::123:role/r'') =
     \<lparr>RecordIdentifierFeatureName = ''order_id'',
      EventTimeFeatureName = ''event_time'',
      RoleArn = ''arn:aws:iam::123:role/r'',
      OnlineStoreConfig = Some \<lparr>EnableOnlineStore = True\<rparr>,
      OfflineStoreConfig =
        Some \<lparr>S3Uri = ''s3://sagemaker-eu-west-2-123/sagemaker-feature-store'',
              TableFormat = Some ICEBERG\<rparr>\<rparr>"
  using orders_group_created_with_iceberg_offline_store
    [of "''sagemaker-eu-west-2-123''" "''arn:aws:iam::123:role/r''" "Some ICEBERG"]
  by (simp add: create_request_def)

end
